theory Spec2Isabelle
  imports Main
begin

section \<open>Error codes and the code registry\<close>

text \<open>
  \<^verbatim>\<open>type Code int\<close>. Codes are only stored, compared, used as map keys and printed in
  decimal; no arithmetic is done on them, so they are modelled as mathematical integers.
\<close>

type_synonym Code = int

definition ErrSuccess :: Code where "ErrSuccess = 0"

definition ErrUnknown :: Code where "ErrUnknown = 1"
definition ErrFatal :: Code where "ErrFatal = 2"
definition ErrCodeNotFound :: Code where "ErrCodeNotFound = 3"

definition ErrDecodingFailed :: Code where "ErrDecodingFailed = 100"
definition ErrDecodingJSON :: Code where "ErrDecodingJSON = 101"
definition ErrDecodingToml :: Code where "ErrDecodingToml = 102"
definition ErrDecodingYaml :: Code where "ErrDecodingYaml = 103"
definition ErrEncodingFailed :: Code where "ErrEncodingFailed = 104"
definition ErrEncodingJSON :: Code where "ErrEncodingJSON = 105"
definition ErrEncodingToml :: Code where "ErrEncodingToml = 106"
definition ErrEncodingYaml :: Code where "ErrEncodingYaml = 107"
definition ErrInvalidJSON :: Code where "ErrInvalidJSON = 108"
definition ErrInvalidToml :: Code where "ErrInvalidToml = 109"
definition ErrInvalidYaml :: Code where "ErrInvalidYaml = 110"
definition ErrTypeConversionFailed :: Code where "ErrTypeConversionFailed = 111"

text \<open>
  \<^verbatim>\<open>type ErrCode struct { Ext string; Int string; HTTP int }\<close>, the one implementation of
  the interface \<^verbatim>\<open>Coder\<close>. The field \<^verbatim>\<open>Int\<close> is written \<open>Int'\<close>.
\<close>

record ErrCode =
  Ext :: string
  Int' :: string
  HTTP :: int

definition ErrCode_Detail :: "ErrCode \<Rightarrow> string" where
  "ErrCode_Detail cd = Int' cd"

definition ErrCode_String :: "ErrCode \<Rightarrow> string" where
  "ErrCode_String cd = Ext cd"

definition ErrCode_HTTPStatus :: "ErrCode \<Rightarrow> int" where
  "ErrCode_HTTPStatus cd = (if 0 = HTTP cd then 200 else HTTP cd)"

text \<open>
  The registry \<^verbatim>\<open>var Codes = map[Code]Coder{}\<close> is a mutable global; every function that
  reads it takes its current contents as the parameter \<open>Codes\<close>. \<open>init_Codes\<close> is the
  registry as the package's \<^verbatim>\<open>init()\<close> leaves it.
\<close>

definition init_Codes :: "Code \<rightharpoonup> ErrCode" where
  "init_Codes =
     [ErrSuccess \<mapsto> \<lparr>Ext = ''ok'', Int' = ''ok'', HTTP = 0\<rparr>,
      ErrUnknown \<mapsto> \<lparr>Ext = ''an unknown error occurred'', Int' = '''', HTTP = 0\<rparr>,
      ErrFatal \<mapsto> \<lparr>Ext = ''a fatal error occurred'', Int' = ''a fatal error occurred'', HTTP = 0\<rparr>,
      ErrCodeNotFound \<mapsto> \<lparr>Ext = ''code not found'', Int' = ''code not found'', HTTP = 0\<rparr>,
      ErrDecodingJSON \<mapsto>
        \<lparr>Ext = ''JSON data could not be decoded'', Int' = ''JSON data could not be decoded'', HTTP = 0\<rparr>,
      ErrDecodingToml \<mapsto>
        \<lparr>Ext = ''TOML data could not be decoded'', Int' = ''TOML data could not be decoded'', HTTP = 0\<rparr>,
      ErrDecodingYaml \<mapsto>
        \<lparr>Ext = ''YAML data could not be decoded'', Int' = ''YAML data could not be decoded'', HTTP = 0\<rparr>,
      ErrEncodingJSON \<mapsto>
        \<lparr>Ext = ''JSON data could not be encoded'', Int' = ''JSON data could not be encoded'', HTTP = 0\<rparr>,
      ErrEncodingToml \<mapsto>
        \<lparr>Ext = ''TOML data could not be encoded'', Int' = ''TOML data could not be encoded'', HTTP = 0\<rparr>,
      ErrEncodingYaml \<mapsto>
        \<lparr>Ext = ''YAML data could not be encoded'', Int' = ''YAML data could not be encoded'', HTTP = 0\<rparr>,
      ErrTypeConversionFailed \<mapsto>
        \<lparr>Ext = ''data type conversion failed'', Int' = ''data type conversion failed'', HTTP = 0\<rparr>]"

section \<open>Caller capture\<close>

text \<open>
  \<^verbatim>\<open>type Call struct { loaded bool; file string; line int; ok bool; pc uintptr }\<close>.
  The field \<^verbatim>\<open>file\<close> is written \<open>file'\<close>. A value of the interface \<^verbatim>\<open>Caller\<close> is either
  nil or a \<open>Call\<close>; \<^verbatim>\<open>Trace\<close> is a slice of them.
\<close>

record Call =
  loaded :: bool
  file' :: string
  line :: int
  ok :: bool
  pc :: nat

type_synonym Caller = "Call option"

type_synonym Trace = "Caller list"

text \<open>
  \<^verbatim>\<open>runtime.Caller(a)\<close> belongs to the Go runtime. The call chain it walks is the
  parameter \<open>rt\<close>: entry \<open>a\<close> holds the \<open>(pc, file, line)\<close> that \<^verbatim>\<open>runtime.Caller(a)\<close>
  reports with \<open>ok = true\<close>, and beyond the end of the list it reports
  \<open>(0, "", 0, false)\<close>. One chain is supplied per call of a public function and serves
  every capture made during that call.
\<close>

type_synonym runtime_frame = "nat \<times> string \<times> int"

definition zero_Call :: Call where
  "zero_Call = \<lparr>loaded = False, file' = [], line = 0, ok = False, pc = 0\<rparr>"

text \<open>
  String helpers of package \<^verbatim>\<open>strings\<close>. \<open>ToLower\<close> folds the ASCII letters only, which is
  what \<^verbatim>\<open>strings.ToLower\<close> does on a file name made of ASCII bytes.
\<close>

definition toLowerChar :: "char \<Rightarrow> char" where
  "toLowerChar c =
     (case map_of (zip ''ABCDEFGHIJKLMNOPQRSTUVWXYZ'' ''abcdefghijklmnopqrstuvwxyz'') c of
        None \<Rightarrow> c
      | Some l \<Rightarrow> l)"

definition ToLower :: "string \<Rightarrow> string" where
  "ToLower s = map toLowerChar s"

definition HasPrefix :: "string \<Rightarrow> string \<Rightarrow> bool" where
  "HasPrefix s p = (length p \<le> length s \<and> take (length p) s = p)"

definition HasSuffix :: "string \<Rightarrow> string \<Rightarrow> bool" where
  "HasSuffix s p = (length p \<le> length s \<and> drop (length s - length p) s = p)"

fun Contains :: "string \<Rightarrow> string \<Rightarrow> bool" where
  "Contains [] sub = (sub = [])"
| "Contains (c # s) sub = (if HasPrefix (c # s) sub then True else Contains s sub)"

text \<open>
  \<^verbatim>\<open>getCaller\<close>: walk outwards from frame 0 and stop at the first frame whose file is
  outside the library or is one of its test files, or when the runtime has no further
  frame (the returned \<open>Call\<close> then has \<open>ok = False\<close>).
\<close>

function getCaller_loop :: "runtime_frame list \<Rightarrow> nat \<Rightarrow> Call" where
  "getCaller_loop rt a =
     (if a < length rt then
        (let caller = \<lparr>loaded = False, file' = fst (snd (rt ! a)), line = snd (snd (rt ! a)),
                        ok = True, pc = fst (rt ! a)\<rparr>
         in if \<not> Contains (ToLower (file' caller)) ''github.com/lkcloud/errors'' then caller
            else if HasSuffix (ToLower (file' caller)) ''_test.go'' then caller
            else getCaller_loop rt (a + 1))
      else zero_Call)"
  by pat_completeness auto
termination
  by (relation "measure (\<lambda>(rt, a). length rt - a)") auto

definition getCaller :: "runtime_frame list \<Rightarrow> Caller" where
  "getCaller rt = Some (getCaller_loop rt 0)"

function getTrace_loop :: "runtime_frame list \<Rightarrow> Trace \<Rightarrow> nat \<Rightarrow> Trace" where
  "getTrace_loop rt tr a =
     (if a < length rt then
        getTrace_loop rt
          (tr @ [Some \<lparr>loaded = False, file' = fst (snd (rt ! a)), line = snd (snd (rt ! a)),
                        ok = True, pc = fst (rt ! a)\<rparr>])
          (a + 1)
      else tr)"
  by pat_completeness auto
termination
  by (relation "measure (\<lambda>(rt, tr, a). length rt - a)") auto

definition getTrace :: "runtime_frame list \<Rightarrow> Trace" where
  "getTrace rt = getTrace_loop rt [] 0"

section \<open>Formatting (package fmt)\<close>

text \<open>
  The variadic \<^verbatim>\<open>data ...interface{}\<close> operands are modelled for the two operand types
  \<^verbatim>\<open>int\<close> and \<^verbatim>\<open>string\<close>.
\<close>

datatype arg = AInt int | AStr string

definition digit :: "nat \<Rightarrow> char" where
  "digit n = ''0123456789'' ! n"

fun decimal :: "nat \<Rightarrow> string" where
  "decimal n = (if n < 10 then [digit n] else decimal (n div 10) @ [digit (n mod 10)])"

text \<open>The verb \<^verbatim>\<open>%d\<close> on an integer.\<close>

definition itoa :: "int \<Rightarrow> string" where
  "itoa i = (if i < 0 then CHR ''-'' # decimal (nat (- i)) else decimal (nat i))"

fun typeName :: "arg \<Rightarrow> string" where
  "typeName (AInt i) = ''int''"
| "typeName (AStr s) = ''string''"

fun printValue :: "arg \<Rightarrow> string" where
  "printValue (AInt i) = itoa i"
| "printValue (AStr s) = s"

definition badVerb :: "char \<Rightarrow> arg \<Rightarrow> string" where
  "badVerb v a = ''%!'' @ [v] @ ''('' @ typeName a @ ''='' @ printValue a @ '')''"

fun printArg :: "arg \<Rightarrow> char \<Rightarrow> string" where
  "printArg (AInt i) v = (if v = CHR ''d'' then itoa i else if v = CHR ''v'' then itoa i else badVerb v (AInt i))"
| "printArg (AStr s) v = (if v = CHR ''s'' then s else if v = CHR ''v'' then s else badVerb v (AStr s))"

fun extraArgs :: "arg list \<Rightarrow> string" where
  "extraArgs [] = []"
| "extraArgs [a] = typeName a @ ''='' @ printValue a"
| "extraArgs (a # as) = typeName a @ ''='' @ printValue a @ '', '' @ extraArgs as"

definition extraString :: "arg list \<Rightarrow> string" where
  "extraString as = (if as = [] then [] else ''%!(EXTRA '' @ extraArgs as @ '')'')"

text \<open>
  \<open>Sprintf\<close> models \<^verbatim>\<open>fmt.Sprintf\<close> on format strings whose directives are \<^verbatim>\<open>%%\<close>,
  \<^verbatim>\<open>%d\<close>, \<^verbatim>\<open>%s\<close> and \<^verbatim>\<open>%v\<close>: literal text is copied, \<^verbatim>\<open>%%\<close> prints a percent sign, a
  verb consumes the next operand, a verb with no operand left prints
  \<^verbatim>\<open>%!verb(MISSING)\<close>, a verb that does not fit its operand prints
  \<^verbatim>\<open>%!verb(type=value)\<close>, a percent sign at the end prints \<^verbatim>\<open>%!(NOVERB)\<close>, and operands
  left over are listed in \<^verbatim>\<open>%!(EXTRA ...)\<close>. Flags, widths, precisions, argument
  indexes and the remaining verbs of package \<^verbatim>\<open>fmt\<close> are outside the model; no
  statement below evaluates \<open>Sprintf\<close> on such a format string.
\<close>

fun Sprintf :: "string \<Rightarrow> arg list \<Rightarrow> string" where
  "Sprintf [] as = extraString as"
| "Sprintf (c # fs) as =
     (if c \<noteq> CHR ''%'' then c # Sprintf fs as
      else (case fs of
              [] \<Rightarrow> ''%!(NOVERB)'' @ extraString as
            | v # fs' \<Rightarrow>
                (if v = CHR ''%'' then CHR ''%'' # Sprintf fs' as
                 else (case as of
                         [] \<Rightarrow> ''%!'' @ [v] @ ''(MISSING)'' @ Sprintf fs' []
                       | a # as' \<Rightarrow> printArg a v @ Sprintf fs' as'))))"

section \<open>Helpers of packages path and strings used by the renderer\<close>

text \<open>
  \<^verbatim>\<open>path.Base\<close>: the empty path gives \<^verbatim>\<open>.\<close>; trailing slashes are removed, then
  everything up to the last slash; a path of slashes only gives \<^verbatim>\<open>/\<close>.
\<close>

definition Base :: "string \<Rightarrow> string" where
  "Base p =
     (if p = [] then ''.''
      else (let q = rev (dropWhile (\<lambda>c. c = CHR ''/'') (rev p));
                r = rev (takeWhile (\<lambda>c. c \<noteq> CHR ''/'') (rev q))
            in if r = [] then ''/'' else r))"

text \<open>\<^verbatim>\<open>strings.Trim(s, cutset)\<close>: strip the characters of \<open>cutset\<close> from both ends.\<close>

definition Trim :: "string \<Rightarrow> string \<Rightarrow> string" where
  "Trim s cutset =
     rev (dropWhile (\<lambda>c. c \<in> set cutset) (rev (dropWhile (\<lambda>c. c \<in> set cutset) s)))"

section \<open>Errors, frames and stacks\<close>

text \<open>
  A value of Go's interface \<^verbatim>\<open>error\<close>, as far as this package tells them apart by its
  type assertions: nil, a pointer \<^verbatim>\<open>*Err\<close> (what \<^verbatim>\<open>New\<close>, \<^verbatim>\<open>Wrap\<close>, \<^verbatim>\<open>From\<close> and \<^verbatim>\<open>With\<close>
  return), a stack held by value (\<^verbatim>\<open>Err\<close>, which has the method \<^verbatim>\<open>Error\<close> on a value
  receiver), a frame held by value (\<^verbatim>\<open>Msg\<close>), or an error of any other type, of
  which only the text of its \<^verbatim>\<open>Error()\<close> is observed.

  \<^verbatim>\<open>type Msg struct { err error; caller Caller; code Code; msg string; trace Trace }\<close>
  is the one implementation of the interface \<^verbatim>\<open>ErrMsg\<close>, and
  \<^verbatim>\<open>type Err struct { errs []ErrMsg; mux *sync.Mutex }\<close> is the stack. The mutex holds no
  data and is left out here; the section on the mutex adds it. A pointer is taken to be non-nil and is
  modelled by the stack it points to at the time of the call, and a slice by the list of
  its elements, so values do not share storage.
\<close>

datatype error = NilError | PtrErr Err | ValErr Err | ValMsg Msg | Foreign string
and Msg = Msg (err: error) (caller: Caller) (code: Code) (msg: string) (trace: Trace)
and Err = Err (errs: "Msg list")

text \<open>A run-time panic of the Go program is a value of the model.\<close>

datatype panic = IndexOutOfRange | NilPointer

text \<open>\<^verbatim>\<open>fmt.Errorf(msg, data...)\<close>: an error of a foreign type whose text is the formatted message.\<close>

definition Errorf :: "string \<Rightarrow> arg list \<Rightarrow> error" where
  "Errorf m d = Foreign (Sprintf m d)"

text \<open>Indexing a slice, \<^verbatim>\<open>xs[i]\<close>, panics outside \<open>0 \<le> i < len(xs)\<close>.\<close>

definition slice_index :: "'a list \<Rightarrow> int \<Rightarrow> panic + 'a" where
  "slice_index xs i =
     (if 0 \<le> i \<and> i < int (length xs) then Inr (xs ! nat i) else Inl IndexOutOfRange)"

subsection \<open>Methods of \<open>Msg\<close>\<close>

definition Msg_Caller :: "Msg \<Rightarrow> Caller" where
  "Msg_Caller m = caller m"

definition Msg_Code :: "Msg \<Rightarrow> Code" where
  "Msg_Code m = code m"

definition Msg_Msg :: "Msg \<Rightarrow> string" where
  "Msg_Msg m = msg m"

text \<open>\<^verbatim>\<open>SetCode\<close> has a value receiver: it returns a changed copy and leaves its receiver alone.\<close>

definition Msg_SetCode :: "Msg \<Rightarrow> Code \<Rightarrow> Msg" where
  "Msg_SetCode m c = Msg (err m) (caller m) c (msg m) (trace m)"

definition Msg_Trace :: "Msg \<Rightarrow> Trace" where
  "Msg_Trace m = trace m"

subsection \<open>\<open>Len\<close>, \<open>Last\<close> and the error text\<close>

definition Err_Len :: "Err \<Rightarrow> int" where
  "Err_Len s = int (length (errs s))"

text \<open>\<^verbatim>\<open>Last\<close> reads \<^verbatim>\<open>err.errs[len(err.errs)-1]\<close> with no test of the length.\<close>

definition Err_Last :: "Err \<Rightarrow> panic + Msg" where
  "Err_Last s = slice_index (errs s) (int (length (errs s)) - 1)"

text \<open>
  The method \<^verbatim>\<open>Error()\<close> of an \<^verbatim>\<open>error\<close> value dispatches on its dynamic type; calling it
  on nil panics. \<^verbatim>\<open>Err.Error\<close> gives the text of the last frame, or the empty string for
  an empty stack. \<^verbatim>\<open>Msg.String\<close> gives the text of the frame's underlying error, or the
  frame's own message when there is none; \<^verbatim>\<open>Msg.Error\<close> is \<^verbatim>\<open>Msg.String\<close>.
\<close>

function error_Error :: "error \<Rightarrow> panic + string"
  and Err_Error :: "Err \<Rightarrow> panic + string"
  and Msg_String :: "Msg \<Rightarrow> panic + string"
where
  "error_Error NilError = Inl NilPointer"
| "error_Error (PtrErr s) = Err_Error s"
| "error_Error (ValErr s) = Err_Error s"
| "error_Error (ValMsg m) = Msg_String m"
| "error_Error (Foreign t) = Inr t"
| "Err_Error s =
     (let str = [] in
      if Err_Len s > 0 then (case Err_Last s of Inl p \<Rightarrow> Inl p | Inr m \<Rightarrow> Msg_String m)
      else Inr str)"
| "Msg_String m = (if NilError = err m then Inr (msg m) else error_Error (err m))"
  by pat_completeness auto
termination
proof (relation "measure (case_sum size (case_sum size size))")
  show "wf (measure (case_sum size (case_sum size size)))"
    by simp
next
  fix s :: Err and m :: Msg
  assume "Err_Last s = Inr m"
  then have ne: "errs s \<noteq> []" and "m = errs s ! nat (int (length (errs s)) - 1)"
    by (auto simp: Err_Last_def slice_index_def split: if_splits)
  moreover have "nat (int (length (errs s)) - 1) = length (errs s) - 1"
    by arith
  ultimately have m: "m = last (errs s)"
    by (simp add: last_conv_nth)
  have "size (last xs) < Suc (size_list size xs)" if "xs \<noteq> []" for xs :: "Msg list"
    using that by (induction xs) auto
  from this [OF ne] m have "size m < size s"
    by (cases s) simp
  then show "(Inr (Inr m), Inr (Inl s)) \<in> measure (case_sum size (case_sum size size))"
    by simp
next
  fix m :: Msg
  have "size (err m) < size m"
    by (cases m) simp
  then show "(Inl (err m), Inr (Inr m)) \<in> measure (case_sum size (case_sum size size))"
    by simp
qed simp_all

definition Msg_Error :: "Msg \<Rightarrow> panic + string" where
  "Msg_Error m = Msg_String m"

subsection \<open>Constructors and accessors of \<open>Err\<close>\<close>

text \<open>\<^verbatim>\<open>New\<close>: a stack of one frame, the only frame that records the full call chain.\<close>

definition New :: "runtime_frame list \<Rightarrow> Code \<Rightarrow> string \<Rightarrow> arg list \<Rightarrow> Err" where
  "New rt c m d = Err [Msg (Errorf m d) (getCaller rt) c (Sprintf m d) (getTrace rt)]"

definition Err_Caller :: "Err \<Rightarrow> panic + Caller" where
  "Err_Caller s =
     (if Err_Len s > 0 then (case Err_Last s of Inl p \<Rightarrow> Inl p | Inr m \<Rightarrow> Inr (Msg_Caller m))
      else Inr None)"

text \<open>\<^verbatim>\<open>Cause\<close> returns the frame at index 0 itself, as an \<^verbatim>\<open>error\<close>, or nil for an empty stack.\<close>

definition Err_Cause :: "Err \<Rightarrow> panic + error" where
  "Err_Cause s =
     (if Err_Len s > 0 then (case slice_index (errs s) 0 of Inl p \<Rightarrow> Inl p | Inr m \<Rightarrow> Inr (ValMsg m))
      else Inr NilError)"

definition Err_Code :: "Err \<Rightarrow> panic + Code" where
  "Err_Code s =
     (if Err_Len s > 0 then (case Err_Last s of Inl p \<Rightarrow> Inl p | Inr m \<Rightarrow> Inr (Msg_Code m))
      else Inr ErrUnknown)"

definition Err_Detail :: "(Code \<rightharpoonup> ErrCode) \<Rightarrow> Err \<Rightarrow> panic + string" where
  "Err_Detail Codes s =
     (if Err_Len s > 0 then
        (case Err_Code s of
           Inl p \<Rightarrow> Inl p
         | Inr c \<Rightarrow>
             (case Codes c of
                Some cd \<Rightarrow> (if [] \<noteq> ErrCode_Detail cd then Inr (ErrCode_Detail cd) else Err_Error s)
              | None \<Rightarrow> Inr []))
      else Inr [])"

definition Err_HTTPStatus :: "(Code \<rightharpoonup> ErrCode) \<Rightarrow> Err \<Rightarrow> panic + int" where
  "Err_HTTPStatus Codes s =
     (if Err_Len s > 0 then
        (case Err_Last s of
           Inl p \<Rightarrow> Inl p
         | Inr m \<Rightarrow>
             (case Codes (Msg_Code m) of
                Some cd \<Rightarrow> Inr (ErrCode_HTTPStatus cd)
              | None \<Rightarrow> Inr 200))
      else Inr 200)"

definition Err_Msg :: "Err \<Rightarrow> panic + string" where
  "Err_Msg s =
     (if Err_Len s > 0 then (case Err_Last s of Inl p \<Rightarrow> Inl p | Inr m \<Rightarrow> Inr (Msg_Msg m))
      else Inr [])"

text \<open>\<^verbatim>\<open>Push\<close> appends to the receiver and returns it; the model returns the updated stack.\<close>

definition Err_Push :: "Err \<Rightarrow> Msg list \<Rightarrow> Err" where
  "Err_Push s e = Err (errs s @ e)"

definition Err_Trace :: "Err \<Rightarrow> Trace" where
  "Err_Trace s = map Msg_Caller (errs s)"

subsection \<open>The renderer\<close>

text \<open>
  Inside the loop of \<^verbatim>\<open>Format\<close>: the metadata of the frame's code, or metadata made of
  the frame's own error text when the code is not registered; then the internal and the
  external text, each followed by the code, and each falling back to the frame's error
  text when the registered text is empty.
\<close>

definition frame_code :: "(Code \<rightharpoonup> ErrCode) \<Rightarrow> Msg \<Rightarrow> panic + ErrCode" where
  "frame_code Codes m =
     (case Codes (Msg_Code m) of
        Some cd \<Rightarrow> Inr cd
      | None \<Rightarrow>
          (case Msg_Error m of
             Inl p \<Rightarrow> Inl p
           | Inr t \<Rightarrow> Inr \<lparr>Ext = t, Int' = t, HTTP = 0\<rparr>))"

definition text_with_code :: "string \<Rightarrow> Msg \<Rightarrow> panic + string" where
  "text_with_code t m =
     (if [] \<noteq> t then Inr (t @ '' (code:'' @ itoa (Msg_Code m) @ '')'')
      else (case Msg_Error m of
              Inl p \<Rightarrow> Inl p
            | Inr r \<Rightarrow> Inr (r @ '' (code:'' @ itoa (Msg_Code m) @ '')'')))"

definition errMsgInt :: "ErrCode \<Rightarrow> Msg \<Rightarrow> panic + string" where
  "errMsgInt cd m = text_with_code (ErrCode_Detail cd) m"

definition errMsgExt :: "ErrCode \<Rightarrow> Msg \<Rightarrow> panic + string" where
  "errMsgExt cd m = text_with_code (ErrCode_String cd) m"

text \<open>
  The location part \<^verbatim>\<open>"%s:%d:%s"\<close> of the condensed and inline modes. The name of the
  function at a program counter, \<^verbatim>\<open>runtime.FuncForPC(pc).Name()\<close>, is the parameter
  \<open>funcName\<close>.
\<close>

definition caller_text :: "(nat \<Rightarrow> string) \<Rightarrow> Call \<Rightarrow> string" where
  "caller_text funcName cl = Base (file' cl) @ '':'' @ itoa (line cl) @ '':'' @ funcName (pc cl)"

definition extended_text :: "(nat \<Rightarrow> string) \<Rightarrow> nat \<Rightarrow> Msg \<Rightarrow> Call \<Rightarrow> string \<Rightarrow> string \<Rightarrow> string" where
  "extended_text funcName k m cl mi me =
     ''#'' @ itoa (int k) @ '': '' @ [CHR 0x60] @ funcName (pc cl) @ [CHR 0x60, CHR 0x0A]
     @ [CHR 0x09] @ ''error:   '' @ Msg_Msg m @ [CHR 0x0A]
     @ [CHR 0x09] @ ''line:    '' @ Base (file' cl) @ '':'' @ itoa (line cl) @ [CHR 0x0A]
     @ [CHR 0x09] @ ''detail:  '' @ mi @ [CHR 0x0A]
     @ [CHR 0x09] @ ''message: '' @ me @ [CHR 0x0A]"

definition condensed_text :: "(nat \<Rightarrow> string) \<Rightarrow> nat \<Rightarrow> Msg \<Rightarrow> Call \<Rightarrow> string \<Rightarrow> string" where
  "condensed_text funcName k m cl mi =
     ''#'' @ itoa (int k) @ '' - caller: '' @ [CHR 0x22] @ caller_text funcName cl @ [CHR 0x22]
     @ '' error: '' @ [CHR 0x22] @ Msg_Msg m @ [CHR 0x22]
     @ '' detail: '' @ [CHR 0x22] @ mi @ [CHR 0x22]"

text \<open>
  The loop \<^verbatim>\<open>for k := len(err.errs) - 1; k >= 0; k--\<close>, entered with \<open>n = len(err.errs)\<close>;
  \<open>Suc k\<close> stands for the loop variable \<open>k\<close>, so the frame read is \<open>es ! k\<close> with
  \<open>k < length es\<close>. \<open>flag\<close> is \<^verbatim>\<open>state.Flag\<close>. With none of the three flags the text of
  the top frame is written, with the external text used as the format string, and
  \<^verbatim>\<open>Format\<close> returns. A frame with a nil \<^verbatim>\<open>Caller\<close> panics in the three flagged modes.
\<close>

fun Format_loop ::
  "(Code \<rightharpoonup> ErrCode) \<Rightarrow> (nat \<Rightarrow> string) \<Rightarrow> (char \<Rightarrow> bool) \<Rightarrow> Msg list \<Rightarrow> nat \<Rightarrow> string
   \<Rightarrow> panic + string" where
  "Format_loop Codes funcName flag es 0 str = Inr (Trim str [CHR '' '', CHR 0x0A, CHR 0x09])"
| "Format_loop Codes funcName flag es (Suc k) str =
     (case frame_code Codes (es ! k) of
        Inl p \<Rightarrow> Inl p
      | Inr cd \<Rightarrow>
     (case errMsgInt cd (es ! k) of
        Inl p \<Rightarrow> Inl p
      | Inr mi \<Rightarrow>
     (case errMsgExt cd (es ! k) of
        Inl p \<Rightarrow> Inl p
      | Inr me \<Rightarrow>
          (if flag CHR ''+'' then
             (case Msg_Caller (es ! k) of
                None \<Rightarrow> Inl NilPointer
              | Some cl \<Rightarrow>
                  Format_loop Codes funcName flag es k
                    (str @ extended_text funcName k (es ! k) cl mi me))
           else if flag CHR ''#'' then
             (case Msg_Caller (es ! k) of
                None \<Rightarrow> Inl NilPointer
              | Some cl \<Rightarrow>
                  Format_loop Codes funcName flag es k
                    (str @ condensed_text funcName k (es ! k) cl mi @ [CHR 0x0A]))
           else if flag CHR ''-'' then
             (case Msg_Caller (es ! k) of
                None \<Rightarrow> Inl NilPointer
              | Some cl \<Rightarrow>
                  Format_loop Codes funcName flag es k
                    (str @ condensed_text funcName k (es ! k) cl mi @ '' ''))
           else Inr (Sprintf me [])))))"

text \<open>
  \<^verbatim>\<open>Format\<close> returns what it writes to \<^verbatim>\<open>state\<close>. Any verb other than \<^verbatim>\<open>v\<close> writes
  \<^verbatim>\<open>err.Error()\<close>, used as the format string.
\<close>

definition Err_Format ::
  "(Code \<rightharpoonup> ErrCode) \<Rightarrow> (nat \<Rightarrow> string) \<Rightarrow> (char \<Rightarrow> bool) \<Rightarrow> char \<Rightarrow> Err \<Rightarrow> panic + string" where
  "Err_Format Codes funcName flag verb s =
     (if verb = CHR ''v'' then Format_loop Codes funcName flag (errs s) (length (errs s)) []
      else (case Err_Error s of Inl p \<Rightarrow> Inl p | Inr t \<Rightarrow> Inr (Sprintf t [])))"

text \<open>\<^verbatim>\<open>String\<close> is \<^verbatim>\<open>fmt.Sprintf("%v", err)\<close>, which calls \<^verbatim>\<open>Format\<close> with the verb \<^verbatim>\<open>v\<close> and no flag.\<close>

definition Err_String :: "(Code \<rightharpoonup> ErrCode) \<Rightarrow> (nat \<Rightarrow> string) \<Rightarrow> Err \<Rightarrow> panic + string" where
  "Err_String Codes funcName s = Err_Format Codes funcName (\<lambda>c. False) CHR ''v'' s"

subsection \<open>\<open>From\<close>, \<open>With\<close> and \<open>Wrap\<close>\<close>

text \<open>
  \<^verbatim>\<open>From\<close>. For a \<^verbatim>\<open>*Err\<close> it evaluates \<^verbatim>\<open>e.errs[len(e.errs)-1].SetCode(code)\<close>, whose
  result is dropped, and returns the stack it was given. For anything else it builds a
  one-frame stack whose message is \<^verbatim>\<open>err.Error()\<close>; there is no test for nil.
\<close>

definition From :: "runtime_frame list \<Rightarrow> Code \<Rightarrow> error \<Rightarrow> panic + Err" where
  "From rt c e =
     (case e of
        PtrErr s \<Rightarrow>
          (case slice_index (errs s) (int (length (errs s)) - 1) of
             Inl p \<Rightarrow> Inl p
           | Inr m \<Rightarrow> (let dropped = Msg_SetCode m c in Inr s))
      | _ \<Rightarrow>
          (case error_Error e of
             Inl p \<Rightarrow> Inl p
           | Inr t \<Rightarrow> Inr (Err [Msg e (getCaller rt) c t []])))"

text \<open>
  \<^verbatim>\<open>With\<close> changes its receiver and returns it; the model takes the receiver's stack
  and returns the updated one. The type assertions are \<^verbatim>\<open>e.(Err)\<close>, a stack held by
  value, then \<^verbatim>\<open>e.(Msg)\<close>; a \<^verbatim>\<open>*Err\<close> matches neither and is handled by the last branch.
  In the \<^verbatim>\<open>Msg\<close> branch the message of the pushed frame is \<^verbatim>\<open>err.Error()\<close>, read from
  the receiver after its top frame has been taken off. The frames of a stack passed by
  value are taken as they are when \<^verbatim>\<open>With\<close> is called (its slice is assumed not to
  overlap the receiver's).
\<close>

definition Err_With :: "runtime_frame list \<Rightarrow> Err \<Rightarrow> error \<Rightarrow> string \<Rightarrow> arg list \<Rightarrow> panic + Err" where
  "Err_With rt s e m d =
     (if NilError = e then Inr s
      else if Err_Len s = 0 then Inr (Err_Push s [Msg e (getCaller rt) 0 (Sprintf m d) []])
      else
        (case Err_Last s of
           Inl p \<Rightarrow> Inl p
         | Inr tp \<Rightarrow>
             (let s1 = Err (take (nat (int (length (errs s)) - 1)) (errs s)) in
              (case (case e of
                       ValErr msgs \<Rightarrow>
                         Inr (Err_Push
                                (Err_Push s1 [Msg (Errorf m d) (getCaller rt) 0 (Sprintf m d) []])
                                (errs msgs))
                     | ValMsg msgs \<Rightarrow>
                         (case Err_Error s1 of
                            Inl p \<Rightarrow> Inl p
                          | Inr t \<Rightarrow> Inr (Err_Push s1 [Msg (Errorf m d) (getCaller rt) 0 t [], msgs]))
                     | _ \<Rightarrow> Inr (Err_Push s1 [Msg e (getCaller rt) 0 (Sprintf m d) []])) of
                 Inl p \<Rightarrow> Inl p
               | Inr s2 \<Rightarrow> Inr (Err_Push s2 [tp])))))"

text \<open>
  \<^verbatim>\<open>Wrap\<close>. For nil it returns \<^verbatim>\<open>New(code, msg)\<close>, without \<^verbatim>\<open>data\<close>. Otherwise it fills a
  fresh stack with the frames of a \<^verbatim>\<open>*Err\<close>, or with a \<^verbatim>\<open>Msg\<close>, or with one frame of code
  0 made from \<^verbatim>\<open>err.Error()\<close>, and pushes the new frame.
\<close>

definition Wrap :: "runtime_frame list \<Rightarrow> error \<Rightarrow> Code \<Rightarrow> string \<Rightarrow> arg list \<Rightarrow> panic + Err" where
  "Wrap rt e c m d =
     (if NilError = e then Inr (New rt c m [])
      else
        (case (case e of
                 PtrErr x \<Rightarrow> Inr (Err_Push (Err []) (errs x))
               | ValMsg x \<Rightarrow> Inr (Err_Push (Err []) [x])
               | _ \<Rightarrow>
                   (case error_Error e of
                      Inl p \<Rightarrow> Inl p
                    | Inr t \<Rightarrow> Inr (Err [Msg e (getCaller rt) 0 t []]))) of
           Inl p \<Rightarrow> Inl p
         | Inr s \<Rightarrow> Inr (Err_Push s [Msg (Errorf m d) (getCaller rt) c (Sprintf m d) []])))"

text \<open>\<^verbatim>\<open>DecodeErr\<close>. A key missing from the registry yields a nil \<^verbatim>\<open>Coder\<close>, whose method call panics.\<close>

definition DecodeErr ::
  "(Code \<rightharpoonup> ErrCode) \<Rightarrow> (nat \<Rightarrow> string) \<Rightarrow> error \<Rightarrow> panic + (Code \<times> string)" where
  "DecodeErr Codes funcName e =
     (if e = NilError then
        (case Codes ErrSuccess of None \<Rightarrow> Inl NilPointer | Some cd \<Rightarrow> Inr (ErrSuccess, ErrCode_String cd))
      else
        (case e of
           PtrErr typed \<Rightarrow>
             (case Err_Code typed of
                Inl p \<Rightarrow> Inl p
              | Inr c \<Rightarrow>
                  (case Err_String Codes funcName typed of
                     Inl p \<Rightarrow> Inl p
                   | Inr t \<Rightarrow> Inr (c, t)))
         | _ \<Rightarrow>
             (case Codes ErrUnknown of
                None \<Rightarrow> Inl NilPointer
              | Some cd \<Rightarrow> Inr (ErrUnknown, ErrCode_String cd))))"

section \<open>The configuration scenario of the package's examples\<close>

text \<open>
  The example file registers the code 1000 in its \<^verbatim>\<open>init()\<close> and builds a chain through
  three functions, each returning the \<^verbatim>\<open>*Err\<close> of \<^verbatim>\<open>Wrap\<close> as an \<^verbatim>\<open>error\<close>. \<open>r1\<close>, \<open>r2\<close>
  and \<open>r3\<close> are the call chains at the three calls of \<^verbatim>\<open>Wrap\<close>.
\<close>

definition ConfigurationNotValid :: Code where "ConfigurationNotValid = 1000"

definition example_Codes :: "Code \<rightharpoonup> ErrCode" where
  "example_Codes =
     init_Codes(ConfigurationNotValid \<mapsto>
       \<lparr>Ext = ''Configuration not valid'', Int' = ''the configuration is invalid'', HTTP = 500\<rparr>)"

definition readConfig :: "runtime_frame list \<Rightarrow> panic + error" where
  "readConfig r1 =
     (case Wrap r1 (Errorf ''read: end of input'' []) ErrUnknown ''could not read configuration file'' [] of
        Inl p \<Rightarrow> Inl p
      | Inr s \<Rightarrow> Inr (PtrErr s))"

definition decodeConfig :: "runtime_frame list \<Rightarrow> runtime_frame list \<Rightarrow> panic + error" where
  "decodeConfig r1 r2 =
     (case readConfig r1 of
        Inl p \<Rightarrow> Inl p
      | Inr e \<Rightarrow>
          (case Wrap r2 e ErrInvalidJSON ''could not decode configuration data'' [] of
             Inl p \<Rightarrow> Inl p
           | Inr s \<Rightarrow> Inr (PtrErr s)))"

definition loadConfig ::
  "runtime_frame list \<Rightarrow> runtime_frame list \<Rightarrow> runtime_frame list \<Rightarrow> panic + error" where
  "loadConfig r1 r2 r3 =
     (case decodeConfig r1 r2 of
        Inl p \<Rightarrow> Inl p
      | Inr e \<Rightarrow>
          (case Wrap r3 e ConfigurationNotValid ''service configuration could not be loaded'' [] of
             Inl p \<Rightarrow> Inl p
           | Inr s \<Rightarrow> Inr (PtrErr s)))"

section \<open>The attach operation as the specification words it\<close>


section \<open>The mutex\<close>

text \<open>
  \<^verbatim>\<open>sync.Mutex\<close> is one bit. A stack shared between goroutines is its frames
  (\<^verbatim>\<open>err.errs\<close>), its field \<^verbatim>\<open>mux\<close>, which is nil until the first \<^verbatim>\<open>Lock\<close>, and the
  package-wide \<^verbatim>\<open>errMux\<close>. A call either blocks in \<^verbatim>\<open>Lock\<close> because the mutex is held (no
  other goroutine is there to release it), or panics, or stops in the runtime's fatal
  error for unlocking an unlocked mutex, or returns a value; the last three come with
  the state they leave behind.
\<close>

datatype mutex = Unlocked | Locked

record shared_Err =
  frames :: "Msg list"
  mux :: "mutex option"
  errMux :: mutex

datatype 'a run = Blocks | Panics panic shared_Err | Fatal shared_Err | Returns 'a shared_Err

text \<open>Sequencing: what follows a call runs only when the call returns.\<close>

definition bind_run :: "'a run \<Rightarrow> ('a \<Rightarrow> shared_Err \<Rightarrow> 'b run) \<Rightarrow> 'b run" where
  "bind_run r f =
     (case r of
        Blocks \<Rightarrow> Blocks
      | Panics p w \<Rightarrow> Panics p w
      | Fatal w \<Rightarrow> Fatal w
      | Returns x w \<Rightarrow> f x w)"

text \<open>
  \<^verbatim>\<open>Lock\<close>: under \<^verbatim>\<open>errMux\<close>, create the stack's mutex when it is nil; then lock the
  stack's mutex. \<^verbatim>\<open>Unlock\<close> unlocks it.
\<close>

definition Err_Lock :: "shared_Err \<Rightarrow> unit run" where
  "Err_Lock w =
     (case errMux w of
        Locked \<Rightarrow> Blocks
      | Unlocked \<Rightarrow>
          (let w1 = w\<lparr>errMux := Locked\<rparr>;
               w2 = (if None = mux w1 then w1\<lparr>mux := Some Unlocked\<rparr> else w1);
               w3 = w2\<lparr>errMux := Unlocked\<rparr>
           in (case mux w3 of
                 None \<Rightarrow> Panics NilPointer w3
               | Some Locked \<Rightarrow> Blocks
               | Some Unlocked \<Rightarrow> Returns () (w3\<lparr>mux := Some Locked\<rparr>))))"

definition Err_Unlock :: "shared_Err \<Rightarrow> unit run" where
  "Err_Unlock w =
     (case mux w of
        None \<Rightarrow> Panics NilPointer w
      | Some Unlocked \<Rightarrow> Fatal w
      | Some Locked \<Rightarrow> Returns () (w\<lparr>mux := Some Unlocked\<rparr>))"

text \<open>
  \<^verbatim>\<open>Len\<close>, \<^verbatim>\<open>Last\<close> and \<^verbatim>\<open>Push\<close> call \<^verbatim>\<open>Lock\<close>, touch \<^verbatim>\<open>err.errs\<close> and call \<^verbatim>\<open>Unlock\<close>;
  there is no \<^verbatim>\<open>defer\<close>, so a panic in \<^verbatim>\<open>Last\<close> leaves the mutex locked.
\<close>

definition Err_Len_mux :: "shared_Err \<Rightarrow> int run" where
  "Err_Len_mux w =
     bind_run (Err_Lock w) (\<lambda>u w1.
       let n = int (length (frames w1)) in
       bind_run (Err_Unlock w1) (\<lambda>u w2. Returns n w2))"

definition Err_Last_mux :: "shared_Err \<Rightarrow> Msg run" where
  "Err_Last_mux w =
     bind_run (Err_Lock w) (\<lambda>u w1.
       case slice_index (frames w1) (int (length (frames w1)) - 1) of
         Inl p \<Rightarrow> Panics p w1
       | Inr m \<Rightarrow> bind_run (Err_Unlock w1) (\<lambda>u w2. Returns m w2))"

definition Err_Push_mux :: "Msg list \<Rightarrow> shared_Err \<Rightarrow> unit run" where
  "Err_Push_mux e w =
     bind_run (Err_Lock w) (\<lambda>u w1.
       let w2 = w1\<lparr>frames := frames w1 @ e\<rparr> in
       bind_run (Err_Unlock w2) (\<lambda>u w3. Returns () w3))"

text \<open>
  \<^verbatim>\<open>Cause\<close> and \<^verbatim>\<open>Code\<close> go through \<^verbatim>\<open>Len\<close> (and \<^verbatim>\<open>Last\<close>), each of which takes and
  releases the mutex on its own; \<^verbatim>\<open>Cause\<close> then reads \<^verbatim>\<open>err.errs[0]\<close> directly.
\<close>

definition Err_Cause_mux :: "shared_Err \<Rightarrow> error run" where
  "Err_Cause_mux w =
     bind_run (Err_Len_mux w) (\<lambda>n w1.
       if n > 0 then
         (case slice_index (frames w1) 0 of
            Inl p \<Rightarrow> Panics p w1
          | Inr m \<Rightarrow> Returns (ValMsg m) w1)
       else Returns NilError w1)"

definition Err_Code_mux :: "shared_Err \<Rightarrow> Code run" where
  "Err_Code_mux w =
     bind_run (Err_Len_mux w) (\<lambda>n w1.
       if n > 0 then bind_run (Err_Last_mux w1) (\<lambda>m w2. Returns (Msg_Code m) w2)
       else Returns ErrUnknown w1)"

text \<open>
  \<^verbatim>\<open>Trace\<close> ranges over \<^verbatim>\<open>err.errs\<close> and \<^verbatim>\<open>Format\<close> indexes it; neither calls \<^verbatim>\<open>Lock\<close> on
  the stack. (A stack nested inside a frame has a mutex of its own, which is not part of
  this state.) \<open>From_mux\<close> is \<^verbatim>\<open>From\<close> on a \<^verbatim>\<open>*Err\<close>, whose state is the argument: it
  indexes \<^verbatim>\<open>e.errs\<close> and returns the pointer, without \<^verbatim>\<open>Lock\<close>.
\<close>

definition Err_Trace_mux :: "shared_Err \<Rightarrow> Trace run" where
  "Err_Trace_mux w = Returns (map Msg_Caller (frames w)) w"

definition Err_Format_mux ::
  "(Code \<rightharpoonup> ErrCode) \<Rightarrow> (nat \<Rightarrow> string) \<Rightarrow> (char \<Rightarrow> bool) \<Rightarrow> char \<Rightarrow> shared_Err \<Rightarrow> string run" where
  "Err_Format_mux Codes funcName flag verb w =
     (case Err_Format Codes funcName flag verb (Err (frames w)) of
        Inl p \<Rightarrow> Panics p w
      | Inr t \<Rightarrow> Returns t w)"

definition From_mux :: "Code \<Rightarrow> shared_Err \<Rightarrow> unit run" where
  "From_mux c w =
     (case slice_index (frames w) (int (length (frames w)) - 1) of
        Inl p \<Rightarrow> Panics p w
      | Inr m \<Rightarrow> (let dropped = Msg_SetCode m c in Returns () w))"

section \<open>Basic facts\<close>

declare getCaller_loop.simps [simp del]
declare getTrace_loop.simps [simp del]
declare decimal.simps [simp del]

lemma slice_index_last:
  assumes "xs \<noteq> []"
  shows "slice_index xs (int (length xs) - 1) = Inr (last xs)"
proof -
  from assms have "0 < length xs" by simp
  then have "nat (int (length xs) - 1) = length xs - 1" by arith
  with assms show ?thesis
    by (simp add: slice_index_def last_conv_nth)
qed

lemma slice_index_empty: "slice_index [] i = Inl IndexOutOfRange"
  by (simp add: slice_index_def)

lemma slice_index_first: "xs \<noteq> [] \<Longrightarrow> slice_index xs 0 = Inr (hd xs)"
  by (cases xs) (simp_all add: slice_index_def)

lemma Err_Len_pos: "(0 < Err_Len s) = (errs s \<noteq> [])"
  by (simp add: Err_Len_def)

lemma Err_Last_nonempty: "errs s \<noteq> [] \<Longrightarrow> Err_Last s = Inr (last (errs s))"
  by (simp add: Err_Last_def slice_index_last)

lemma Err_Last_empty: "errs s = [] \<Longrightarrow> Err_Last s = Inl IndexOutOfRange"
  by (simp add: Err_Last_def slice_index_empty)

lemma take_all_but_last: "take (nat (int (length xs) - 1)) xs = butlast xs"
proof -
  have "nat (int (length xs) - 1) = length xs - 1" by arith
  then show ?thesis by (simp add: butlast_conv_take)
qed

text \<open>
  Within the model the error text of a non-nil error is always defined: the three
  mutually recursive readers never reach the method call on nil.
\<close>

lemma Error_total:
  "e \<noteq> NilError \<longrightarrow> (\<exists>t. error_Error e = Inr t)"
  "\<exists>t. Err_Error s = Inr t"
  "\<exists>t. Msg_String m = Inr t"
proof (induction e and s and m rule: error_Error_Err_Error_Msg_String.induct)
  case (6 s)
  show ?case
  proof (cases "errs s = []")
    case True
    then show ?thesis by (simp add: Err_Len_def)
  next
    case False
    with 6 show ?thesis
      by (simp add: Err_Len_def Err_Last_nonempty)
  qed
next
  case (7 m)
  then show ?case by (cases "err m = NilError") auto
qed simp_all

lemma Wrap_PtrErr:
  "Wrap rt (PtrErr x) c m d = Inr (Err (errs x @ [Msg (Errorf m d) (getCaller rt) c (Sprintf m d) []]))"
  by (simp add: Wrap_def Err_Push_def)

lemma Err_Cause_nonempty: "errs s \<noteq> [] \<Longrightarrow> Err_Cause s = Inr (ValMsg (hd (errs s)))"
  by (simp add: Err_Cause_def Err_Len_def slice_index_first)

lemma Err_Code_nonempty: "errs s \<noteq> [] \<Longrightarrow> Err_Code s = Inr (code (last (errs s)))"
  by (simp add: Err_Code_def Err_Len_def Err_Last_nonempty Msg_Code_def)

lemma itoa_1000: "itoa 1000 = ''1000''"
  by (simp add: itoa_def decimal.simps digit_def)

section \<open>Wrap\<close>

text \<open>
  Claim C1. For every stack \<open>s\<close> with at least one frame, every code and every message,
  \<^verbatim>\<open>Wrap\<close> applied to the pointer to \<open>s\<close> returns a stack holding the frames of \<open>s\<close> in
  order followed by the one new frame, and \<^verbatim>\<open>Cause\<close> of the result is \<^verbatim>\<open>Cause\<close> of \<open>s\<close>:
  the frame at index 0 of \<open>s\<close>.
\<close>

theorem Wrap_keeps_Cause:
  assumes "0 < Err_Len s"
  shows "\<exists>w. Wrap rt (PtrErr s) c m d = Inr w
           \<and> errs w = errs s @ [Msg (Errorf m d) (getCaller rt) c (Sprintf m d) []]
           \<and> Err_Cause w = Err_Cause s
           \<and> Err_Cause s = Inr (ValMsg (hd (errs s)))"
proof -
  from assms have ne: "errs s \<noteq> []"
    by (simp add: Err_Len_pos)
  let ?w = "Err (errs s @ [Msg (Errorf m d) (getCaller rt) c (Sprintf m d) []])"
  have "Wrap rt (PtrErr s) c m d = Inr ?w"
    by (rule Wrap_PtrErr)
  moreover from ne have "Err_Cause ?w = Inr (ValMsg (hd (errs s)))"
    by (simp add: Err_Cause_nonempty)
  moreover from ne have "Err_Cause s = Inr (ValMsg (hd (errs s)))"
    by (rule Err_Cause_nonempty)
  ultimately show ?thesis by simp
qed

theorem Wrap_keeps_Cause_witness:
  "0 < Err_Len (Err [Msg NilError None 2 ''disk failure'' []])
   \<and> (\<exists>w. Wrap [] (PtrErr (Err [Msg NilError None 2 ''disk failure'' []])) 7 ''saving'' [] = Inr w
         \<and> Err_Cause w = Inr (ValMsg (Msg NilError None 2 ''disk failure'' [])))"
proof -
  have h: "0 < Err_Len (Err [Msg NilError None 2 ''disk failure'' []])"
    by (simp add: Err_Len_def)
  from Wrap_keeps_Cause [OF h, of "[]" 7 "''saving''" "[]"] h show ?thesis
    by auto
qed

text \<open>
  Claim C2. The length after \<^verbatim>\<open>Wrap\<close>: 1 when nil is wrapped; one more than the length
  of \<open>s\<close> when the pointer to a stack \<open>s\<close> is wrapped; 2 when an error of a foreign type
  is wrapped, the frame at index 0 then being the synthetic root frame of code 0 made
  from the error's text.
\<close>

theorem Wrap_Len:
  "(\<exists>w. Wrap rt NilError c m d = Inr w \<and> Err_Len w = 1)
   \<and> (\<exists>w. Wrap rt (PtrErr s) c m d = Inr w \<and> Err_Len w = Err_Len s + 1)
   \<and> (\<exists>w. Wrap rt (Foreign t) c m d = Inr w \<and> Err_Len w = 2
          \<and> hd (errs w) = Msg (Foreign t) (getCaller rt) 0 t [])"
  by (simp add: Wrap_def New_def Err_Push_def Err_Len_def)

text \<open>
  The two remaining arms: a frame passed by value becomes frame 0, and a stack passed by
  value (\<^verbatim>\<open>Err\<close>, not \<^verbatim>\<open>*Err\<close>) is treated as an error of a foreign type.
\<close>

lemma Wrap_ValMsg:
  "Wrap rt (ValMsg f) c m d = Inr (Err [f, Msg (Errorf m d) (getCaller rt) c (Sprintf m d) []])"
  by (simp add: Wrap_def Err_Push_def)

lemma Wrap_ValErr:
  "\<exists>t. Wrap rt (ValErr x) c m d =
     Inr (Err [Msg (ValErr x) (getCaller rt) 0 t [], Msg (Errorf m d) (getCaller rt) c (Sprintf m d) []])"
proof -
  obtain t where "Err_Error x = Inr t"
    using Error_total(2) by blast
  then show ?thesis
    by (simp add: Wrap_def Err_Push_def del: Err_Error.simps)
qed

text \<open>
  Claim C6. For nil, \<^verbatim>\<open>Wrap\<close> should behave exactly like \<^verbatim>\<open>New\<close> with the same code,
  template and arguments. The code calls \<^verbatim>\<open>New(code, msg)\<close> and leaves \<^verbatim>\<open>data\<close> out: at
  the template \<^verbatim>\<open>port %d in use\<close> with the argument 8080 the result is the stack that
  \<^verbatim>\<open>New\<close> builds from no arguments, with the message \<^verbatim>\<open>port %!d(MISSING) in use\<close>, where
  \<^verbatim>\<open>New\<close> with the argument gives \<^verbatim>\<open>port 8080 in use\<close>.
\<close>

theorem Wrap_nil_drops_data:
  "Wrap [] NilError ErrFatal ''port %d in use'' [AInt 8080] = Inr (New [] ErrFatal ''port %d in use'' [])
   \<and> Err_Msg (New [] ErrFatal ''port %d in use'' []) = Inr ''port %!d(MISSING) in use''
   \<and> Err_Msg (New [] ErrFatal ''port %d in use'' [AInt 8080]) = Inr ''port 8080 in use''"
  by (simp add: Wrap_def New_def Err_Msg_def Err_Len_def Err_Last_nonempty Msg_Msg_def
      extraString_def itoa_def decimal.simps digit_def)

text \<open>The same for every input: the arguments never reach \<^verbatim>\<open>New\<close>.\<close>

lemma Wrap_nil: "Wrap rt NilError c m d = Inr (New rt c m [])"
  by (simp add: Wrap_def)

section \<open>With\<close>

lemma Err_With_nonempty:
  assumes "errs s \<noteq> []" and "e \<noteq> NilError"
  shows "Err_With rt s e m d =
     (case (case e of
              ValErr msgs \<Rightarrow>
                Inr (Err (butlast (errs s) @ [Msg (Errorf m d) (getCaller rt) 0 (Sprintf m d) []] @ errs msgs))
            | ValMsg msgs \<Rightarrow>
                (case Err_Error (Err (butlast (errs s))) of
                   Inl p \<Rightarrow> Inl p
                 | Inr t \<Rightarrow> Inr (Err (butlast (errs s) @ [Msg (Errorf m d) (getCaller rt) 0 t [], msgs])))
            | _ \<Rightarrow> Inr (Err (butlast (errs s) @ [Msg e (getCaller rt) 0 (Sprintf m d) []]))) of
        Inl p \<Rightarrow> Inl p
      | Inr s2 \<Rightarrow> Inr (Err (errs s2 @ [last (errs s)])))"
proof -
  from assms(1) have "Err_Len s \<noteq> 0" and "Err_Last s = Inr (last (errs s))"
    by (simp_all add: Err_Len_def Err_Last_nonempty)
  with assms(2) show ?thesis
    by (cases e; cases "Err_Error (Err (butlast (errs s)))")
       (simp_all add: Err_With_def take_all_but_last Err_Push_def del: Err_Error.simps)
qed

lemma Err_With_ValErr:
  "errs s \<noteq> [] \<Longrightarrow>
   Err_With rt s (ValErr x) m d =
     Inr (Err (butlast (errs s) @ [Msg (Errorf m d) (getCaller rt) 0 (Sprintf m d) []] @ errs x
               @ [last (errs s)]))"
  by (simp add: Err_With_nonempty)

lemma Err_With_ValMsg:
  assumes "errs s \<noteq> []"
  shows "\<exists>t. Err_With rt s (ValMsg f) m d =
     Inr (Err (butlast (errs s) @ [Msg (Errorf m d) (getCaller rt) 0 t [], f] @ [last (errs s)]))"
proof -
  obtain t where "Err_Error (Err (butlast (errs s))) = Inr t"
    using Error_total(2) by blast
  with assms show ?thesis
    by (simp add: Err_With_nonempty)
qed

lemma Err_With_Foreign:
  "errs s \<noteq> [] \<Longrightarrow>
   Err_With rt s (Foreign t) m d =
     Inr (Err (butlast (errs s) @ [Msg (Foreign t) (getCaller rt) 0 (Sprintf m d) []] @ [last (errs s)]))"
  by (simp add: Err_With_nonempty)

text \<open>
  A \<^verbatim>\<open>*Err\<close> is not matched by the assertion \<^verbatim>\<open>e.(Err)\<close>: its frames are not spliced in,
  it becomes the underlying error of one new frame.
\<close>

lemma Err_With_PtrErr:
  "errs s \<noteq> [] \<Longrightarrow>
   Err_With rt s (PtrErr x) m d =
     Inr (Err (butlast (errs s) @ [Msg (PtrErr x) (getCaller rt) 0 (Sprintf m d) []] @ [last (errs s)]))"
  by (simp add: Err_With_nonempty)

lemma Err_With_top:
  assumes "errs s \<noteq> []"
  shows "\<exists>fs. Err_With rt s e m d = Inr (Err (fs @ [last (errs s)]))"
proof (cases e)
  case NilError
  with assms have "Err_With rt s e m d = Inr (Err (butlast (errs s) @ [last (errs s)]))"
    by (cases s) (simp add: Err_With_def)
  then show ?thesis by blast
next
  case (PtrErr x)
  with assms show ?thesis by (simp add: Err_With_PtrErr)
next
  case (ValErr x)
  with assms show ?thesis
    using Err_With_ValErr [of s rt x m d] by (metis append.assoc)
next
  case (ValMsg f)
  with assms show ?thesis
    using Err_With_ValMsg [of s rt f m d] by (metis append.assoc)
next
  case (Foreign t)
  with assms show ?thesis by (simp add: Err_With_Foreign)
qed




text \<open>
  Claim C4, as amended. For every stack \<open>s\<close> with at least one frame and every attached
  error, \<^verbatim>\<open>With\<close> returns a stack whose \<^verbatim>\<open>Code\<close> is the \<^verbatim>\<open>Code\<close> of \<open>s\<close>, the code of its top
  frame.
\<close>

theorem With_keeps_Code:
  assumes "0 < Err_Len s"
  shows "\<exists>w. Err_With rt s e m d = Inr w \<and> Err_Code w = Err_Code s
            \<and> Err_Code s = Inr (code (last (errs s)))"
proof -
  from assms have ne: "errs s \<noteq> []"
    by (simp add: Err_Len_pos)
  then obtain fs where w: "Err_With rt s e m d = Inr (Err (fs @ [last (errs s)]))"
    using Err_With_top by blast
  have "Err_Code (Err (fs @ [last (errs s)])) = Inr (code (last (errs s)))"
    by (simp add: Err_Code_nonempty)
  with w ne show ?thesis
    by (simp add: Err_Code_nonempty)
qed

theorem With_keeps_Code_witness:
  "0 < Err_Len (New [] 7 ''save failed'' [])
   \<and> (\<exists>w. Err_With [] (New [] 7 ''save failed'' []) (Foreign ''disk full'') ''context'' [] = Inr w
         \<and> Err_Code w = Inr 7)"
proof -
  have h: "0 < Err_Len (New [] 7 ''save failed'' [])"
    by (simp add: New_def Err_Len_def)
  from With_keeps_Code [OF h, of "[]" "Foreign ''disk full''" "''context''" "[]"] h
  show ?thesis
    by (auto simp: New_def)
qed

text \<open>
  Claim C4 as first stated, with the empty stack included, fails there: \<^verbatim>\<open>Code\<close> of the
  empty stack is \<^verbatim>\<open>ErrUnknown\<close>, 1, and \<^verbatim>\<open>With\<close> pushes a frame of code 0 onto it.
\<close>

theorem With_empty_Code_counterexample:
  "Err_Code (Err []) = Inr 1
   \<and> Err_With [] (Err []) (Foreign ''disk full'') ''context'' [] =
       Inr (Err [Msg (Foreign ''disk full'') (getCaller []) 0 ''context'' []])
   \<and> Err_Code (Err [Msg (Foreign ''disk full'') (getCaller []) 0 ''context'' []]) = Inr 0"
  by (simp add: Err_Code_def Err_With_def Err_Len_def Err_Push_def ErrUnknown_def Err_Last_nonempty
      Msg_Code_def extraString_def)

section \<open>Accessors on the empty stack\<close>

text \<open>
  Claim C5, as amended. On a stack with zero frames every accessor other than \<^verbatim>\<open>Last\<close>
  returns without a fault: \<^verbatim>\<open>Len\<close> is 0, \<^verbatim>\<open>Code\<close> is \<^verbatim>\<open>ErrUnknown\<close> (1, not the success
  code), \<^verbatim>\<open>Msg\<close>, \<^verbatim>\<open>Error\<close> and \<^verbatim>\<open>Detail\<close> are the empty string, \<^verbatim>\<open>Cause\<close> and \<^verbatim>\<open>Caller\<close> are
  nil, \<^verbatim>\<open>HTTPStatus\<close> is 200, \<^verbatim>\<open>Trace\<close> is empty, and \<^verbatim>\<open>String\<close> and \<^verbatim>\<open>Format\<close>, whatever
  the flags and the verb, write the empty string.
\<close>

theorem empty_stack_accessors:
  "Err_Len (Err []) = 0
   \<and> Err_Code (Err []) = Inr ErrUnknown
   \<and> Err_Msg (Err []) = Inr []
   \<and> Err_Error (Err []) = Inr []
   \<and> Err_Detail Codes (Err []) = Inr []
   \<and> Err_Cause (Err []) = Inr NilError
   \<and> Err_Caller (Err []) = Inr None
   \<and> Err_HTTPStatus Codes (Err []) = Inr 200
   \<and> Err_Trace (Err []) = []
   \<and> Err_String Codes funcName (Err []) = Inr []
   \<and> Err_Format Codes funcName flag verb (Err []) = Inr []"
  by (simp add: Err_Len_def Err_Code_def Err_Msg_def Err_Detail_def Err_Cause_def Err_Caller_def
      Err_HTTPStatus_def Err_Trace_def Err_String_def Err_Format_def Trim_def extraString_def)

text \<open>
  Claim C5 as first stated fails on the empty stack: \<^verbatim>\<open>Code\<close> returns 1 where the success
  code is 0, and \<^verbatim>\<open>Last\<close> indexes at \<open>-1\<close> and panics.
\<close>

theorem empty_stack_counterexample:
  "Err_Code (Err []) = Inr 1 \<and> ErrSuccess = 0 \<and> Err_Last (Err []) = Inl IndexOutOfRange"
  by (simp add: Err_Code_def Err_Len_def ErrUnknown_def ErrSuccess_def Err_Last_empty)

section \<open>The default render\<close>

text \<open>
  With no flag the loop of \<^verbatim>\<open>Format\<close> returns in its first round and never reads a
  \<^verbatim>\<open>Caller\<close>, so \<^verbatim>\<open>String\<close> always yields a text.
\<close>

lemma text_with_code_total: "\<exists>r. text_with_code t f = Inr r"
proof -
  obtain u where "Msg_String f = Inr u"
    using Error_total(3) by blast
  then show ?thesis
    by (simp add: text_with_code_def Msg_Error_def del: Msg_String.simps)
qed

lemma frame_code_total: "\<exists>cd. frame_code Codes f = Inr cd"
proof -
  obtain u where "Msg_String f = Inr u"
    using Error_total(3) by blast
  then show ?thesis
    by (cases "Codes (Msg_Code f)") (simp_all add: frame_code_def Msg_Error_def del: Msg_String.simps)
qed

lemma Err_String_total: "\<exists>t. Err_String Codes funcName s = Inr t"
proof (cases "errs s")
  case Nil
  then show ?thesis
    by (simp add: Err_String_def Err_Format_def)
next
  case (Cons f fs)
  then have len: "length (errs s) = Suc (length fs)" by simp
  obtain cd where cd: "frame_code Codes (errs s ! length fs) = Inr cd"
    using frame_code_total by blast
  obtain mi where mi: "errMsgInt cd (errs s ! length fs) = Inr mi"
    using text_with_code_total by (auto simp: errMsgInt_def)
  obtain me where me: "errMsgExt cd (errs s ! length fs) = Inr me"
    using text_with_code_total by (auto simp: errMsgExt_def)
  from cd mi me show ?thesis
    by (simp add: Err_String_def Err_Format_def len)
qed

section \<open>Codes missing from the registry\<close>

text \<open>
  The renderer falls back to the frame's own error text for a code that is not
  registered: the metadata is made from that text, and so are the internal and the
  external line.
\<close>

lemma rendered_unregistered:
  assumes "Codes (code f) = None" and "Msg_String f = Inr t"
  shows "frame_code Codes f = Inr \<lparr>Ext = t, Int' = t, HTTP = 0\<rparr>"
    and "errMsgInt \<lparr>Ext = t, Int' = t, HTTP = 0\<rparr> f = Inr (t @ '' (code:'' @ itoa (code f) @ '')'')"
    and "errMsgExt \<lparr>Ext = t, Int' = t, HTTP = 0\<rparr> f = Inr (t @ '' (code:'' @ itoa (code f) @ '')'')"
  using assms
  by (simp_all add: frame_code_def errMsgInt_def errMsgExt_def text_with_code_def Msg_Code_def
      Msg_Error_def ErrCode_Detail_def ErrCode_String_def del: Msg_String.simps)

text \<open>\<^verbatim>\<open>Detail\<close> does not: for a code missing from the registry it returns the empty string.\<close>

lemma Err_Detail_unregistered:
  assumes "errs s \<noteq> []" and "Codes (code (last (errs s))) = None"
  shows "Err_Detail Codes s = Inr []"
  using assms by (simp add: Err_Detail_def Err_Len_def Err_Code_nonempty)

text \<open>
  Claim C7. For a stack whose top frame's code is not registered, \<^verbatim>\<open>Detail\<close> should fall
  back to the frame's own error message and be empty only when that message is. The
  code does not: for \<^verbatim>\<open>New(5, "boom")\<close> under the registry of \<^verbatim>\<open>init()\<close>, where 5 is not
  registered, the error message is \<^verbatim>\<open>boom\<close> and \<^verbatim>\<open>Detail\<close> returns the empty string.
\<close>

theorem Detail_unregistered_empty:
  "init_Codes 5 = None
   \<and> Err_Code (New [] 5 ''boom'' []) = Inr 5
   \<and> Err_Error (New [] 5 ''boom'' []) = Inr ''boom''
   \<and> Err_Detail init_Codes (New [] 5 ''boom'' []) = Inr []"
proof -
  have reg: "init_Codes 5 = None"
    by (simp add: init_Codes_def ErrSuccess_def ErrUnknown_def ErrFatal_def ErrCodeNotFound_def
        ErrDecodingJSON_def ErrDecodingToml_def ErrDecodingYaml_def ErrEncodingJSON_def
        ErrEncodingToml_def ErrEncodingYaml_def ErrTypeConversionFailed_def)
  have "Err_Detail init_Codes (New [] 5 ''boom'' []) = Inr []"
    by (rule Err_Detail_unregistered) (simp_all add: New_def reg)
  with reg show ?thesis
    by (simp add: New_def Err_Code_nonempty Err_Len_def Err_Last_nonempty Errorf_def extraString_def)
qed

section \<open>The configuration scenario\<close>

lemma loadConfig_value:
  "loadConfig r1 r2 r3 =
     Inr (PtrErr (Err
       [Msg (Foreign ''read: end of input'') (getCaller r1) 0 ''read: end of input'' [],
        Msg (Foreign ''could not read configuration file'') (getCaller r1) 1
          ''could not read configuration file'' [],
        Msg (Foreign ''could not decode configuration data'') (getCaller r2) 108
          ''could not decode configuration data'' [],
        Msg (Foreign ''service configuration could not be loaded'') (getCaller r3) 1000
          ''service configuration could not be loaded'' []]))"
  by (simp add: loadConfig_def decodeConfig_def readConfig_def Wrap_def Errorf_def Err_Push_def
      extraString_def ErrUnknown_def ErrInvalidJSON_def ConfigurationNotValid_def)

lemma example_Codes_1000:
  "example_Codes 1000 =
     Some \<lparr>Ext = ''Configuration not valid'', Int' = ''the configuration is invalid'', HTTP = 500\<rparr>"
  by (simp add: example_Codes_def ConfigurationNotValid_def)

text \<open>
  Claim C8, as amended. The stack that \<^verbatim>\<open>loadConfig\<close> returns has \<^verbatim>\<open>Code() == 1000\<close>, the
  text of its \<^verbatim>\<open>Cause()\<close> is \<^verbatim>\<open>read: end of input\<close>, its \<^verbatim>\<open>Len()\<close> is 4 (the synthetic root
  frame of the raw error and the three wrap frames), and its default string render is
  \<^verbatim>\<open>Configuration not valid (code:1000)\<close>.
\<close>

theorem loadConfig_scenario:
  "\<exists>s. loadConfig r1 r2 r3 = Inr (PtrErr s)
     \<and> Err_Code s = Inr 1000
     \<and> (case Err_Cause s of Inl p \<Rightarrow> Inl p | Inr e \<Rightarrow> error_Error e) = Inr ''read: end of input''
     \<and> Err_Len s = 4
     \<and> Err_String example_Codes funcName s = Inr ''Configuration not valid (code:1000)''"
proof -
  let ?s = "Err
       [Msg (Foreign ''read: end of input'') (getCaller r1) 0 ''read: end of input'' [],
        Msg (Foreign ''could not read configuration file'') (getCaller r1) 1
          ''could not read configuration file'' [],
        Msg (Foreign ''could not decode configuration data'') (getCaller r2) 108
          ''could not decode configuration data'' [],
        Msg (Foreign ''service configuration could not be loaded'') (getCaller r3) 1000
          ''service configuration could not be loaded'' []]"
  have "loadConfig r1 r2 r3 = Inr (PtrErr ?s)"
    by (rule loadConfig_value)
  moreover have "Err_Code ?s = Inr 1000"
    by (simp add: Err_Code_nonempty)
  moreover have "(case Err_Cause ?s of Inl p \<Rightarrow> Inl p | Inr e \<Rightarrow> error_Error e) = Inr ''read: end of input''"
    by (simp add: Err_Cause_nonempty)
  moreover have "Err_Len ?s = 4"
    by (simp add: Err_Len_def)
  moreover have "Err_String example_Codes funcName ?s = Inr ''Configuration not valid (code:1000)''"
    by (simp add: Err_String_def Err_Format_def frame_code_def Msg_Code_def example_Codes_1000
        errMsgInt_def errMsgExt_def text_with_code_def ErrCode_Detail_def ErrCode_String_def
        itoa_1000 extraString_def)
  ultimately show ?thesis by blast
qed

text \<open>Claim C8 as first stated fails in its length: the stack has four frames, not three.\<close>

theorem loadConfig_Len_counterexample:
  "loadConfig [] [] [] =
     Inr (PtrErr (Err
       [Msg (Foreign ''read: end of input'') (getCaller []) 0 ''read: end of input'' [],
        Msg (Foreign ''could not read configuration file'') (getCaller []) 1
          ''could not read configuration file'' [],
        Msg (Foreign ''could not decode configuration data'') (getCaller []) 108
          ''could not decode configuration data'' [],
        Msg (Foreign ''service configuration could not be loaded'') (getCaller []) 1000
          ''service configuration could not be loaded'' []]))
   \<and> Err_Len (Err
       [Msg (Foreign ''read: end of input'') (getCaller []) 0 ''read: end of input'' [],
        Msg (Foreign ''could not read configuration file'') (getCaller []) 1
          ''could not read configuration file'' [],
        Msg (Foreign ''could not decode configuration data'') (getCaller []) 108
          ''could not decode configuration data'' [],
        Msg (Foreign ''service configuration could not be loaded'') (getCaller []) 1000
          ''service configuration could not be loaded'' []]) = 4
   \<and> (4::int) \<noteq> 3"
  by (simp add: loadConfig_value Err_Len_def)

section \<open>From\<close>

text \<open>\<^verbatim>\<open>From\<close> on nil calls \<^verbatim>\<open>Error()\<close> on the nil error and panics.\<close>

lemma From_nil: "From rt c NilError = Inl NilPointer"
  by (simp add: From_def)

text \<open>
  For a \<^verbatim>\<open>*Err\<close> with at least one frame \<^verbatim>\<open>From\<close> returns the stack it was given, the code
  of the last frame included: the frame changed by \<^verbatim>\<open>SetCode\<close> is a copy.
\<close>

lemma From_PtrErr_nonempty: "errs s \<noteq> [] \<Longrightarrow> From rt c (PtrErr s) = Inr s"
  by (simp add: From_def slice_index_last)

lemma From_other:
  assumes "e \<noteq> NilError" and "\<forall>s. e \<noteq> PtrErr s"
  shows "\<exists>t. From rt c e = Inr (Err [Msg e (getCaller rt) c t []])"
proof -
  from assms(1) obtain t where "error_Error e = Inr t"
    using Error_total(1) by blast
  with assms show ?thesis
    by (cases e) (simp_all add: From_def del: Err_Error.simps Msg_String.simps)
qed

text \<open>
  Claim C10. \<^verbatim>\<open>From\<close> faults on nil, and should return a stack without a fault for every
  non-nil input. The code does not for a non-nil \<^verbatim>\<open>*Err\<close> with zero frames: it indexes
  \<^verbatim>\<open>e.errs[len(e.errs)-1]\<close> with no test of the length and panics.
\<close>

theorem From_empty_stack_panics:
  "From [] ErrUnknown (PtrErr (Err [])) = Inl IndexOutOfRange"
  by (simp add: From_def slice_index_empty)

section \<open>Locking\<close>

text \<open>
  With the stack's mutex held, \<^verbatim>\<open>Lock\<close> blocks, and so does every method that starts
  with it; with both mutexes free, \<^verbatim>\<open>Len\<close>, \<^verbatim>\<open>Last\<close> and \<^verbatim>\<open>Push\<close> do what the sequential
  model says and leave the stack's mutex created and unlocked.
\<close>

lemma Err_Lock_held: "mux w = Some Locked \<Longrightarrow> Err_Lock w = Blocks"
  by (cases "errMux w") (simp_all add: Err_Lock_def)

lemma Err_Lock_free:
  assumes "errMux w = Unlocked" and "mux w \<noteq> Some Locked"
  shows "Err_Lock w = Returns () (w\<lparr>mux := Some Locked\<rparr>)"
proof (cases "mux w")
  case None
  with assms show ?thesis by (simp add: Err_Lock_def)
next
  case (Some mu)
  with assms have "mu = Unlocked" by (cases mu) simp_all
  with Some assms show ?thesis by (simp add: Err_Lock_def)
qed

lemma Err_Len_mux_held: "mux w = Some Locked \<Longrightarrow> Err_Len_mux w = Blocks"
  by (simp add: Err_Len_mux_def Err_Lock_held bind_run_def)

lemma Err_Last_mux_held: "mux w = Some Locked \<Longrightarrow> Err_Last_mux w = Blocks"
  by (simp add: Err_Last_mux_def Err_Lock_held bind_run_def)

lemma Err_Push_mux_held: "mux w = Some Locked \<Longrightarrow> Err_Push_mux e w = Blocks"
  by (simp add: Err_Push_mux_def Err_Lock_held bind_run_def)

lemma Err_Cause_mux_held: "mux w = Some Locked \<Longrightarrow> Err_Cause_mux w = Blocks"
  by (simp add: Err_Cause_mux_def Err_Len_mux_held bind_run_def)

lemma Err_Code_mux_held: "mux w = Some Locked \<Longrightarrow> Err_Code_mux w = Blocks"
  by (simp add: Err_Code_mux_def Err_Len_mux_held bind_run_def)

lemma Err_Len_mux_free:
  assumes "errMux w = Unlocked" and "mux w \<noteq> Some Locked"
  shows "Err_Len_mux w = Returns (Err_Len (Err (frames w))) (w\<lparr>mux := Some Unlocked\<rparr>)"
  using assms by (simp add: Err_Len_mux_def Err_Lock_free bind_run_def Err_Unlock_def Err_Len_def)

lemma Err_Push_mux_free:
  assumes "errMux w = Unlocked" and "mux w \<noteq> Some Locked"
  shows "Err_Push_mux e w =
    Returns () (w\<lparr>frames := errs (Err_Push (Err (frames w)) e), mux := Some Unlocked\<rparr>)"
  using assms by (simp add: Err_Push_mux_def Err_Lock_free bind_run_def Err_Unlock_def Err_Push_def)

lemma Err_Last_mux_free:
  assumes "errMux w = Unlocked" and "mux w \<noteq> Some Locked"
  shows "Err_Last_mux w =
    (case Err_Last (Err (frames w)) of
       Inl p \<Rightarrow> Panics p (w\<lparr>mux := Some Locked\<rparr>)
     | Inr m \<Rightarrow> Returns m (w\<lparr>mux := Some Unlocked\<rparr>))"
  using assms
  by (simp add: Err_Last_mux_def Err_Lock_free bind_run_def Err_Unlock_def Err_Last_def
      split: sum.splits)

text \<open>
  Claim C9. Every mutation and every read of a stack, \<^verbatim>\<open>Trace\<close>, the renderer and
  \<^verbatim>\<open>From\<close> among them, should acquire the stack's own mutex. The code does not: on the
  stack of \<^verbatim>\<open>New(1, "x")\<close> with its mutex held, where \<^verbatim>\<open>Len\<close> and \<^verbatim>\<open>Push\<close> block, \<^verbatim>\<open>Trace\<close>,
  \<^verbatim>\<open>Format\<close> and \<^verbatim>\<open>From\<close> read the frames and return, the mutex untouched.
\<close>

theorem Trace_Format_From_never_lock:
  "Err_Len_mux \<lparr>frames = errs (New [] 1 ''x'' []), mux = Some Locked, errMux = Unlocked\<rparr> = Blocks
   \<and> Err_Push_mux [] \<lparr>frames = errs (New [] 1 ''x'' []), mux = Some Locked, errMux = Unlocked\<rparr> = Blocks
   \<and> Err_Trace_mux \<lparr>frames = errs (New [] 1 ''x'' []), mux = Some Locked, errMux = Unlocked\<rparr> =
       Returns [getCaller []] \<lparr>frames = errs (New [] 1 ''x'' []), mux = Some Locked, errMux = Unlocked\<rparr>
   \<and> Err_Format_mux init_Codes funcName (\<lambda>c. False) CHR ''v''
         \<lparr>frames = errs (New [] 1 ''x'' []), mux = Some Locked, errMux = Unlocked\<rparr> =
       Returns ''an unknown error occurred (code:1)''
         \<lparr>frames = errs (New [] 1 ''x'' []), mux = Some Locked, errMux = Unlocked\<rparr>
   \<and> From_mux 2 \<lparr>frames = errs (New [] 1 ''x'' []), mux = Some Locked, errMux = Unlocked\<rparr> =
       Returns () \<lparr>frames = errs (New [] 1 ''x'' []), mux = Some Locked, errMux = Unlocked\<rparr>"
  by (simp add: Err_Len_mux_held Err_Push_mux_held Err_Trace_mux_def Err_Format_mux_def From_mux_def
      New_def Msg_Caller_def slice_index_def Err_Format_def frame_code_def Msg_Code_def
      init_Codes_def ErrSuccess_def ErrUnknown_def ErrFatal_def ErrCodeNotFound_def
      ErrDecodingJSON_def ErrDecodingToml_def ErrDecodingYaml_def ErrEncodingJSON_def
      ErrEncodingToml_def ErrEncodingYaml_def ErrTypeConversionFailed_def
      errMsgInt_def errMsgExt_def text_with_code_def ErrCode_Detail_def ErrCode_String_def
      Msg_Error_def Errorf_def extraString_def itoa_def decimal.simps digit_def)

text \<open>
  \<^verbatim>\<open>Last\<close> on an empty stack panics between \<^verbatim>\<open>Lock\<close> and \<^verbatim>\<open>Unlock\<close>: the mutex stays
  locked and the next \<^verbatim>\<open>Len\<close> blocks.
\<close>

lemma Last_panics_holding_mutex:
  "Err_Last_mux \<lparr>frames = [], mux = None, errMux = Unlocked\<rparr> =
     Panics IndexOutOfRange \<lparr>frames = [], mux = Some Locked, errMux = Unlocked\<rparr>
   \<and> Err_Len_mux \<lparr>frames = [], mux = Some Locked, errMux = Unlocked\<rparr> = Blocks"
  by (simp add: Err_Last_mux_free Err_Last_empty Err_Len_mux_held)

end
